theory Spec2Isabelle
  imports Main
begin

section \<open>Types that SkClipStack.h takes from other headers\<close>

text \<open>
  Modelled from the spec: SkRect.h is not among the sources. A rectangle is four scalar
  edges (the header initialises one as \<^verbatim>\<open>{ 0, 0, 0, 0 }\<close>); the scalar type is a
  parameter \<open>'a\<close>, and \<^verbatim>\<open>operator==\<close> on rectangles is equality of the four edges.
\<close>

record 'a SkRect =
  fLeft :: 'a
  fTop :: 'a
  fRight :: 'a
  fBottom :: 'a

text \<open>
  Modelled from the spec: SkRect::setEmpty is not among the sources; the spec calls the
  empty rectangle the zero rect.
\<close>

definition SkRect_setEmpty :: "'a::zero SkRect" where
  "SkRect_setEmpty = \<lparr>fLeft = 0, fTop = 0, fRight = 0, fBottom = 0\<rparr>"

text \<open>
  Modelled from the spec: SkRegion.h is not among the sources; the set operators are the
  six the spec lists. The header itself names only \<^verbatim>\<open>kReplace_Op\<close>.
\<close>

datatype SkRegion_Op =
  kDifference_Op | kIntersect_Op | kUnion_Op | kXOR_Op | kReverseDifference_Op | kReplace_Op

section \<open>SkClipStack: enumerations and reserved generation ids\<close>

datatype BoundsType = kNormal_BoundsType | kInsideOut_BoundsType

datatype Element_Type = kEmpty_Type | kRect_Type | kPath_Type

definition kInvalidGenID :: int where
  "kInvalidGenID = 0"

definition kEmptyGenID :: int where
  "kEmptyGenID = 1"

definition kWideOpenGenID :: int where
  "kWideOpenGenID = 2"

section \<open>SkClipStack::Element\<close>

text \<open>
  The path type \<open>'p\<close> is opaque (SkPath.h is not among the sources): what the header
  calls on a path (default construction, \<^verbatim>\<open>reset\<close>, \<^verbatim>\<open>operator==\<close>,
  \<^verbatim>\<open>getBounds\<close>, \<^verbatim>\<open>conservativelyContainsRect\<close>, \<^verbatim>\<open>isInverseFillType\<close>) is
  passed to the functions below as an argument. The \<^verbatim>\<open>int\<close> members are unbounded
  integers: the code modelled here stores and compares them, and decrements the save
  count only when it is positive, so no operation on them can wrap around.
\<close>

record ('a, 'p) Element =
  fPath :: 'p
  fRect :: "'a SkRect"
  fSaveCount :: int
  fOp :: SkRegion_Op
  fType :: Element_Type
  fDoAA :: bool
  fFiniteBoundType :: BoundsType
  fFiniteBound :: "'a SkRect"
  fIsIntersectionOfRects :: bool
  fGenID :: int

definition initCommon ::
  "int \<Rightarrow> SkRegion_Op \<Rightarrow> bool \<Rightarrow> ('a::zero, 'p) Element \<Rightarrow> ('a, 'p) Element" where
  "initCommon saveCount op doAA e =
     e\<lparr>fSaveCount := saveCount,
       fOp := op,
       fDoAA := doAA,
       fFiniteBoundType := kInsideOut_BoundsType,
       fFiniteBound := SkRect_setEmpty,
       fIsIntersectionOfRects := False,
       fGenID := kInvalidGenID\<rparr>"

definition initRect ::
  "int \<Rightarrow> 'a SkRect \<Rightarrow> SkRegion_Op \<Rightarrow> bool \<Rightarrow> ('a::zero, 'p) Element \<Rightarrow> ('a, 'p) Element" where
  "initRect saveCount rect op doAA e =
     initCommon saveCount op doAA (e\<lparr>fRect := rect, fType := kRect_Type\<rparr>)"

definition initPath ::
  "int \<Rightarrow> 'p \<Rightarrow> SkRegion_Op \<Rightarrow> bool \<Rightarrow> ('a::zero, 'p) Element \<Rightarrow> ('a, 'p) Element" where
  "initPath saveCount path op doAA e =
     initCommon saveCount op doAA (e\<lparr>fPath := path, fType := kPath_Type\<rparr>)"

text \<open>\<open>pathReset\<close> is \<^verbatim>\<open>SkPath::reset\<close>.\<close>

definition setEmpty :: "('p \<Rightarrow> 'p) \<Rightarrow> ('a::zero, 'p) Element \<Rightarrow> ('a, 'p) Element" where
  "setEmpty pathReset e =
     e\<lparr>fType := kEmpty_Type,
       fFiniteBound := SkRect_setEmpty,
       fFiniteBoundType := kNormal_BoundsType,
       fIsIntersectionOfRects := False,
       fRect := SkRect_setEmpty,
       fPath := pathReset (fPath e),
       fGenID := kEmptyGenID\<rparr>"

definition setOp :: "SkRegion_Op \<Rightarrow> ('a, 'p) Element \<Rightarrow> ('a, 'p) Element" where
  "setOp op e = e\<lparr>fOp := op\<rparr>"

text \<open>
  The six constructors. A C++ constructor starts from storage whose scalar members are
  indeterminate and whose \<^verbatim>\<open>fPath\<close> member is a default-constructed path: \<open>raw\<close> is
  that storage and \<open>pathNew\<close> the default-constructed path. The first three are the public
  constructors (save count 0), the last three the private ones.
\<close>

definition Element_ctor ::
  "'p \<Rightarrow> ('p \<Rightarrow> 'p) \<Rightarrow> ('a::zero, 'p) Element \<Rightarrow> ('a, 'p) Element" where
  "Element_ctor pathNew pathReset raw =
     setEmpty pathReset (initCommon 0 kReplace_Op False (raw\<lparr>fPath := pathNew\<rparr>))"

definition Element_ctor_rect ::
  "'p \<Rightarrow> ('a::zero, 'p) Element \<Rightarrow> 'a SkRect \<Rightarrow> SkRegion_Op \<Rightarrow> bool \<Rightarrow> ('a, 'p) Element" where
  "Element_ctor_rect pathNew raw rect op doAA =
     initRect 0 rect op doAA (raw\<lparr>fPath := pathNew\<rparr>)"

definition Element_ctor_path ::
  "'p \<Rightarrow> ('a::zero, 'p) Element \<Rightarrow> 'p \<Rightarrow> SkRegion_Op \<Rightarrow> bool \<Rightarrow> ('a, 'p) Element" where
  "Element_ctor_path pathNew raw path op doAA =
     initPath 0 path op doAA (raw\<lparr>fPath := pathNew\<rparr>)"

definition Element_ctor_save ::
  "'p \<Rightarrow> ('p \<Rightarrow> 'p) \<Rightarrow> ('a::zero, 'p) Element \<Rightarrow> int \<Rightarrow> ('a, 'p) Element" where
  "Element_ctor_save pathNew pathReset raw saveCount =
     setEmpty pathReset (initCommon saveCount kReplace_Op False (raw\<lparr>fPath := pathNew\<rparr>))"

definition Element_ctor_save_rect ::
  "'p \<Rightarrow> ('a::zero, 'p) Element \<Rightarrow> int \<Rightarrow> 'a SkRect \<Rightarrow> SkRegion_Op \<Rightarrow> bool
     \<Rightarrow> ('a, 'p) Element" where
  "Element_ctor_save_rect pathNew raw saveCount rect op doAA =
     initRect saveCount rect op doAA (raw\<lparr>fPath := pathNew\<rparr>)"

definition Element_ctor_save_path ::
  "'p \<Rightarrow> ('a::zero, 'p) Element \<Rightarrow> int \<Rightarrow> 'p \<Rightarrow> SkRegion_Op \<Rightarrow> bool
     \<Rightarrow> ('a, 'p) Element" where
  "Element_ctor_save_path pathNew raw saveCount path op doAA =
     initPath saveCount path op doAA (raw\<lparr>fPath := pathNew\<rparr>)"

text \<open>
  \<^verbatim>\<open>operator==\<close>. \<open>same\<close> is the outcome of the address test \<^verbatim>\<open>this == &element\<close>,
  \<open>pathEq\<close> is \<^verbatim>\<open>SkPath::operator==\<close>. The \<^verbatim>\<open>default\<close> branch of the switch has no
  counterpart: the enumeration has three values.
\<close>

definition Element_eq ::
  "('p \<Rightarrow> 'p \<Rightarrow> bool) \<Rightarrow> bool \<Rightarrow> ('a, 'p) Element \<Rightarrow> ('a, 'p) Element \<Rightarrow> bool" where
  "Element_eq pathEq same a b =
     (if same then True
      else if fOp a \<noteq> fOp b \<or> fType a \<noteq> fType b \<or> fDoAA a \<noteq> fDoAA b
              \<or> fSaveCount a \<noteq> fSaveCount b then False
      else (case fType a of
              kPath_Type \<Rightarrow> pathEq (fPath a) (fPath b)
            | kRect_Type \<Rightarrow> fRect a = fRect b
            | kEmpty_Type \<Rightarrow> True))"

definition Element_neq ::
  "('p \<Rightarrow> 'p \<Rightarrow> bool) \<Rightarrow> bool \<Rightarrow> ('a, 'p) Element \<Rightarrow> ('a, 'p) Element \<Rightarrow> bool" where
  "Element_neq pathEq same a b = (\<not> Element_eq pathEq same a b)"

text \<open>\<open>pathGetBounds\<close> is \<^verbatim>\<open>SkPath::getBounds\<close>.\<close>

definition Element_getBounds :: "('p \<Rightarrow> 'a SkRect) \<Rightarrow> ('a::zero, 'p) Element \<Rightarrow> 'a SkRect" where
  "Element_getBounds pathGetBounds e =
     (case fType e of
        kRect_Type \<Rightarrow> fRect e
      | kPath_Type \<Rightarrow> pathGetBounds (fPath e)
      | kEmpty_Type \<Rightarrow> \<lparr>fLeft = 0, fTop = 0, fRight = 0, fBottom = 0\<rparr>)"

text \<open>
  \<open>rectContains\<close> is \<^verbatim>\<open>SkRect::contains\<close>, \<open>pathContains\<close> is
  \<^verbatim>\<open>SkPath::conservativelyContainsRect\<close>.
\<close>

definition Element_contains ::
  "('a SkRect \<Rightarrow> 'a SkRect \<Rightarrow> bool) \<Rightarrow> ('p \<Rightarrow> 'a SkRect \<Rightarrow> bool)
     \<Rightarrow> ('a, 'p) Element \<Rightarrow> 'a SkRect \<Rightarrow> bool" where
  "Element_contains rectContains pathContains e rect =
     (case fType e of
        kRect_Type \<Rightarrow> rectContains (fRect e) rect
      | kPath_Type \<Rightarrow> pathContains (fPath e) rect
      | kEmpty_Type \<Rightarrow> False)"

text \<open>\<open>pathIsInverse\<close> is \<^verbatim>\<open>SkPath::isInverseFillType\<close>.\<close>

definition isInverseFilled :: "('p \<Rightarrow> bool) \<Rightarrow> ('a, 'p) Element \<Rightarrow> bool" where
  "isInverseFilled pathIsInverse e = (kPath_Type = fType e \<and> pathIsInverse (fPath e))"

text \<open>
  An element's life as far as the header defines it: one of the six constructors, then
  any number of calls of the two mutators whose bodies the header gives.
\<close>

datatype ('a, 'p) Element_new =
  New
| New_rect "'a SkRect" SkRegion_Op bool
| New_path 'p SkRegion_Op bool
| New_save int
| New_save_rect int "'a SkRect" SkRegion_Op bool
| New_save_path int 'p SkRegion_Op bool

datatype Element_call = Call_setOp SkRegion_Op | Call_setEmpty

fun Element_construct ::
  "'p \<Rightarrow> ('p \<Rightarrow> 'p) \<Rightarrow> ('a::zero, 'p) Element \<Rightarrow> ('a, 'p) Element_new \<Rightarrow> ('a, 'p) Element" where
  "Element_construct pathNew pathReset raw New = Element_ctor pathNew pathReset raw"
| "Element_construct pathNew pathReset raw (New_rect r op aa) =
     Element_ctor_rect pathNew raw r op aa"
| "Element_construct pathNew pathReset raw (New_path p op aa) =
     Element_ctor_path pathNew raw p op aa"
| "Element_construct pathNew pathReset raw (New_save n) =
     Element_ctor_save pathNew pathReset raw n"
| "Element_construct pathNew pathReset raw (New_save_rect n r op aa) =
     Element_ctor_save_rect pathNew raw n r op aa"
| "Element_construct pathNew pathReset raw (New_save_path n p op aa) =
     Element_ctor_save_path pathNew raw n p op aa"

fun Element_apply ::
  "('p \<Rightarrow> 'p) \<Rightarrow> ('a::zero, 'p) Element \<Rightarrow> Element_call \<Rightarrow> ('a, 'p) Element" where
  "Element_apply pathReset e (Call_setOp op) = setOp op e"
| "Element_apply pathReset e Call_setEmpty = setEmpty pathReset e"

definition Element_run ::
  "'p \<Rightarrow> ('p \<Rightarrow> 'p) \<Rightarrow> ('a::zero, 'p) Element \<Rightarrow> ('a, 'p) Element_new \<Rightarrow> Element_call list
     \<Rightarrow> ('a, 'p) Element" where
  "Element_run pathNew pathReset raw c calls =
     foldl (Element_apply pathReset) (Element_construct pathNew pathReset raw c) calls"

section \<open>Rectangle geometry\<close>

text \<open>
  Modelled from the spec: SkRect.h and SkScalar.h are not among the sources. The spec reads
  a rectangle as the half-open box \<open>[left, right) \<times> [top, bottom)\<close>; scalars are taken
  from any linearly ordered ring, so rounding and NaN are outside the model. A rectangle
  is empty when it has no point.
\<close>

definition SkRect_isEmpty :: "'a::linorder SkRect \<Rightarrow> bool" where
  "SkRect_isEmpty r = (fRight r \<le> fLeft r \<or> fBottom r \<le> fTop r)"

text \<open>
  Modelled from the spec: the point \<open>(x, y)\<close> lies in the half-open box of \<open>r\<close>.
\<close>

definition SkRect_covers :: "'a::linorder SkRect \<Rightarrow> 'a \<Rightarrow> 'a \<Rightarrow> bool" where
  "SkRect_covers r x y = (fLeft r \<le> x \<and> x < fRight r \<and> fTop r \<le> y \<and> y < fBottom r)"

text \<open>
  Modelled from the spec: SkRect::contains is not among the sources. Containment of
  \<open>r\<close> in \<open>b\<close> is containment between boxes that are not empty, edge by edge; an empty
  box neither contains nor is contained.
\<close>

definition SkRect_contains :: "'a::linorder SkRect \<Rightarrow> 'a SkRect \<Rightarrow> bool" where
  "SkRect_contains b r =
     (\<not> SkRect_isEmpty r \<and> \<not> SkRect_isEmpty b
      \<and> fLeft b \<le> fLeft r \<and> fTop b \<le> fTop r \<and> fRight r \<le> fRight b \<and> fBottom r \<le> fBottom b)"

text \<open>
  Modelled from the spec: \<open>r'\<close> lies within \<open>r\<close> edge by edge, whether or not either is
  empty. This is the weakest reading of \<open>R' \<subseteq> R\<close> on rectangles given by their edges.
\<close>

definition SkRect_within :: "'a::linorder SkRect \<Rightarrow> 'a SkRect \<Rightarrow> bool" where
  "SkRect_within r' r =
     (fLeft r \<le> fLeft r' \<and> fTop r \<le> fTop r' \<and> fRight r' \<le> fRight r \<and> fBottom r' \<le> fBottom r)"

text \<open>
  Modelled from the spec: the geometric intersection of two boxes (the larger of the left
  and top edges, the smaller of the right and bottom edges).
\<close>

definition SkRect_intersection :: "'a::linorder SkRect \<Rightarrow> 'a SkRect \<Rightarrow> 'a SkRect" where
  "SkRect_intersection a b =
     \<lparr>fLeft = max (fLeft a) (fLeft b), fTop = max (fTop a) (fTop b),
      fRight = min (fRight a) (fRight b), fBottom = min (fBottom a) (fBottom b)\<rparr>"

text \<open>Modelled from the spec: translation of a rectangle by \<open>(dx, dy)\<close>.\<close>

definition SkRect_offset :: "'a::plus \<Rightarrow> 'a \<Rightarrow> 'a SkRect \<Rightarrow> 'a SkRect" where
  "SkRect_offset dx dy r =
     \<lparr>fLeft = fLeft r + dx, fTop = fTop r + dy, fRight = fRight r + dx, fBottom = fBottom r + dy\<rparr>"

text \<open>
  Modelled from the spec: SkIRect is not among the sources: a rectangle with integer edges.
\<close>

record SkIRect =
  iLeft :: int
  iTop :: int
  iRight :: int
  iBottom :: int

text \<open>
  Modelled from the spec: \<^verbatim>\<open>SkRect::set(const SkIRect&)\<close> is not among the sources; it
  overwrites the four edges of \<open>r\<close> with the integer edges converted to scalars.
\<close>

definition SkRect_set :: "SkIRect \<Rightarrow> 'a::ring_1 SkRect \<Rightarrow> 'a SkRect" where
  "SkRect_set ir r =
     r\<lparr>fLeft := of_int (iLeft ir), fTop := of_int (iTop ir),
       fRight := of_int (iRight ir), fBottom := of_int (iBottom ir)\<rparr>"

text \<open>Modelled from the spec: the float rectangle with the edges of an integer one.\<close>

definition SkRect_of_SkIRect :: "SkIRect \<Rightarrow> 'a::ring_1 SkRect" where
  "SkRect_of_SkIRect ir =
     \<lparr>fLeft = of_int (iLeft ir), fTop = of_int (iTop ir),
      fRight = of_int (iRight ir), fBottom = of_int (iBottom ir)\<rparr>"

section \<open>SkClipStack\<close>

text \<open>
  The deque holds the elements in push order, the top of the stack last. A registered
  callback is a pair of a function \<open>'f\<close> and its data \<open>'d\<close>. The field
  \<^verbatim>\<open>SkClipStack::fSaveCount\<close> is \<open>stack_fSaveCount\<close> here, since the element has a field
  of the same name.
\<close>

record ('a, 'p, 'f, 'd) SkClipStack =
  fDeque :: "('a, 'p) Element list"
  stack_fSaveCount :: int
  fCallbackData :: "('f \<times> 'd) list"

text \<open>
  The integer-rectangle overload of \<^verbatim>\<open>clipDevRect\<close>, the one member function of the
  stack whose body the header gives. \<open>clipDevRect\<close> is the overload on float rectangles
  that it calls, \<open>r\<close> the local rectangle before \<^verbatim>\<open>r.set(ir)\<close>, which the code leaves
  uninitialised.
\<close>

definition clipDevRect_SkIRect ::
  "('a SkRect \<Rightarrow> SkRegion_Op \<Rightarrow> bool \<Rightarrow> 's \<Rightarrow> 's) \<Rightarrow> 'a::ring_1 SkRect
     \<Rightarrow> SkIRect \<Rightarrow> SkRegion_Op \<Rightarrow> 's \<Rightarrow> 's" where
  "clipDevRect_SkIRect clipDevRect r ir op s = clipDevRect (SkRect_set ir r) op False s"

text \<open>
  The claim's reading of that overload, for comparison with it: convert \<open>ir\<close> to a
  float rectangle and call the float overload with the anti-alias flag false.
\<close>

definition clipDevRect_converted ::
  "('a::ring_1 SkRect \<Rightarrow> SkRegion_Op \<Rightarrow> bool \<Rightarrow> 's \<Rightarrow> 's)
     \<Rightarrow> SkIRect \<Rightarrow> SkRegion_Op \<Rightarrow> 's \<Rightarrow> 's" where
  "clipDevRect_converted clipDevRect ir op s = clipDevRect (SkRect_of_SkIRect ir) op False s"

text \<open>
  Modelled from the spec: the constructor \<^verbatim>\<open>SkClipStack()\<close> is declared in the header
  and defined in SkClipStack.cpp, which is not among the sources. A default-constructed
  stack has no element, save count 0 and no callback.
\<close>

definition SkClipStack_ctor :: "('a, 'p, 'f, 'd) SkClipStack" where
  "SkClipStack_ctor = \<lparr>fDeque = [], stack_fSaveCount = 0, fCallbackData = []\<rparr>"

text \<open>
  Modelled from the spec: \<^verbatim>\<open>getBounds\<close> (SkClipStack.cpp) returns the stored bound, bound
  type and rect-intersection flag of the topmost element, and the wide-open values when
  there is no element: inside-out, the empty rectangle and no rect-intersection, the
  "effectively void" default that \<^verbatim>\<open>initCommon\<close> writes.
\<close>

definition getBounds ::
  "('a::zero, 'p, 'f, 'd) SkClipStack \<Rightarrow> 'a SkRect \<times> BoundsType \<times> bool" where
  "getBounds s =
     (if fDeque s = [] then (SkRect_setEmpty, kInsideOut_BoundsType, False)
      else (fFiniteBound (last (fDeque s)), fFiniteBoundType (last (fDeque s)),
            fIsIntersectionOfRects (last (fDeque s))))"

text \<open>
  Modelled from the spec: \<^verbatim>\<open>quickContains\<close> (SkClipStack.cpp) is true only if the top
  element's bound is Normal, its rect-intersection flag is set and the rectangle is
  contained in that bound; false otherwise, so also when there is no element.
\<close>

definition quickContains ::
  "('a::linorder, 'p, 'f, 'd) SkClipStack \<Rightarrow> 'a SkRect \<Rightarrow> bool" where
  "quickContains s devRect =
     (if fDeque s = [] then False
      else fFiniteBoundType (last (fDeque s)) = kNormal_BoundsType
           \<and> fIsIntersectionOfRects (last (fDeque s))
           \<and> SkRect_contains (fFiniteBound (last (fDeque s))) devRect)"

text \<open>
  Modelled from the spec: \<^verbatim>\<open>intersectRectWithClip\<close> (SkClipStack.cpp). When the
  reasoning of \<^verbatim>\<open>quickContains\<close> certifies that the clip contains the rectangle, the
  rectangle stays as it is and the call returns true. Otherwise: with an inside-out bound
  the rectangle is left as it is and the call returns true; with a Normal bound that is
  empty the call returns false and leaves the rectangle; else the rectangle is intersected
  with the Normal bound. The result is the returned flag and the rectangle after the call.
\<close>

definition intersectRectWithClip ::
  "('a::{linorder,zero}, 'p, 'f, 'd) SkClipStack \<Rightarrow> 'a SkRect \<Rightarrow> bool \<times> 'a SkRect" where
  "intersectRectWithClip s devRect =
     (if quickContains s devRect then (True, devRect)
      else (case getBounds s of (bound, boundType, isIntersectionOfRects) \<Rightarrow>
              if boundType = kInsideOut_BoundsType then (True, devRect)
              else if SkRect_isEmpty bound then (False, devRect)
              else (True, SkRect_intersection devRect bound)))"

text \<open>
  Modelled from the spec: \<^verbatim>\<open>isWideOpen\<close> (SkClipStack.cpp) is true iff the stack has no
  element or the topmost element's generation id is the wide-open one.
\<close>

definition isWideOpen :: "('a, 'p, 'f, 'd) SkClipStack \<Rightarrow> bool" where
  "isWideOpen s = (fDeque s = [] \<or> fGenID (last (fDeque s)) = kWideOpenGenID)"

text \<open>
  Modelled from the spec: \<^verbatim>\<open>getTopmostGenID\<close> (SkClipStack.cpp) returns the wide-open id
  when there is no element, else the generation id of the topmost element.
\<close>

definition getTopmostGenID :: "('a, 'p, 'f, 'd) SkClipStack \<Rightarrow> int" where
  "getTopmostGenID s = (if fDeque s = [] then kWideOpenGenID else fGenID (last (fDeque s)))"

text \<open>
  Modelled from the spec: \<^verbatim>\<open>getConservativeBounds\<close> (SkClipStack.cpp) takes the bound and
  type from \<^verbatim>\<open>getBounds\<close>; for an inside-out bound it gives the full rectangle
  \<open>[0, maxWidth) \<times> [0, maxHeight)\<close>, else it translates the Normal bound by the offset and
  intersects it with the full rectangle. The result is the rectangle written to
  \<^verbatim>\<open>devBounds\<close> and the flag written to \<^verbatim>\<open>isIntersectionOfRects\<close>.
\<close>

definition getConservativeBounds ::
  "int \<Rightarrow> int \<Rightarrow> int \<Rightarrow> int \<Rightarrow> ('a::linordered_idom, 'p, 'f, 'd) SkClipStack
     \<Rightarrow> 'a SkRect \<times> bool" where
  "getConservativeBounds offsetX offsetY maxWidth maxHeight s =
     (case getBounds s of (bound, boundType, isIntersectionOfRects) \<Rightarrow>
        if boundType = kInsideOut_BoundsType
        then (\<lparr>fLeft = 0, fTop = 0, fRight = of_int maxWidth, fBottom = of_int maxHeight\<rparr>,
              isIntersectionOfRects)
        else (SkRect_intersection
                (SkRect_offset (of_int offsetX) (of_int offsetY) bound)
                \<lparr>fLeft = 0, fTop = 0, fRight = of_int maxWidth, fBottom = of_int maxHeight\<rparr>,
              isIntersectionOfRects))"

text \<open>
  Modelled from the spec: \<^verbatim>\<open>purgeClip\<close> (SkClipStack.cpp) invokes every registered
  callback with the element's generation id and the callback's data. A call is recorded
  as (callback, generation id, data); the spec leaves the order among the callbacks open,
  the model takes the order of registration.
\<close>

definition purgeClip :: "('f \<times> 'd) list \<Rightarrow> ('a, 'p) Element \<Rightarrow> ('f \<times> int \<times> 'd) list" where
  "purgeClip callbacks element = map (\<lambda>(cb, data). (cb, fGenID element, data)) callbacks"

datatype error = Restore_without_save

text \<open>
  Modelled from the spec: the loop of \<^verbatim>\<open>restore\<close> (SkClipStack.cpp): while the deque has
  a topmost element whose save level exceeds the new save count, purge it and pop it.
  \<open>calls\<close> collects the callback invocations made so far.
\<close>

function restore_loop ::
  "('f \<times> 'd) list \<Rightarrow> int \<Rightarrow> ('a, 'p) Element list \<Rightarrow> ('f \<times> int \<times> 'd) list
     \<Rightarrow> ('f \<times> int \<times> 'd) list \<times> ('a, 'p) Element list" where
  "restore_loop callbacks saveCount deque calls =
     (if deque = [] then (calls, deque)
      else if fSaveCount (last deque) \<le> saveCount then (calls, deque)
      else restore_loop callbacks saveCount (butlast deque)
             (calls @ purgeClip callbacks (last deque)))"
  by pat_completeness auto
termination
  by (relation "measure (\<lambda>(callbacks, saveCount, deque, calls). length deque)") auto

declare restore_loop.simps [simp del]

text \<open>
  Modelled from the spec: \<^verbatim>\<open>restore\<close> (SkClipStack.cpp) requires a positive save count
  and fails otherwise; it decrements the save count and then pops the elements above it.
  The result is the list of callback invocations and the stack after the call.
\<close>

definition restore ::
  "('a, 'p, 'f, 'd) SkClipStack
     \<Rightarrow> error + (('f \<times> int \<times> 'd) list \<times> ('a, 'p, 'f, 'd) SkClipStack)" where
  "restore s =
     (if stack_fSaveCount s \<le> 0 then Inl Restore_without_save
      else (case restore_loop (fCallbackData s) (stack_fSaveCount s - 1) (fDeque s) [] of
              (calls, deque) \<Rightarrow>
                Inr (calls, s\<lparr>fDeque := deque, stack_fSaveCount := stack_fSaveCount s - 1\<rparr>)))"

section \<open>Concrete values for the closed examples\<close>

text \<open>
  Integer scalars; a path is a square with a corner at the origin, given by its side and
  by whether its fill is inverse. Callbacks and their data are numbered.
\<close>

definition pathNew0 :: "nat \<times> bool" where
  "pathNew0 = (0, False)"

definition pathReset0 :: "nat \<times> bool \<Rightarrow> nat \<times> bool" where
  "pathReset0 p = (0, False)"

definition pathGetBounds0 :: "nat \<times> bool \<Rightarrow> int SkRect" where
  "pathGetBounds0 p = \<lparr>fLeft = 0, fTop = 0, fRight = int (fst p), fBottom = int (fst p)\<rparr>"

definition pathEq0 :: "nat \<times> bool \<Rightarrow> nat \<times> bool \<Rightarrow> bool" where
  "pathEq0 p q = (p = q)"

definition pathContains0 :: "nat \<times> bool \<Rightarrow> int SkRect \<Rightarrow> bool" where
  "pathContains0 p r = SkRect_contains (pathGetBounds0 p) r"

definition pathIsInverse0 :: "nat \<times> bool \<Rightarrow> bool" where
  "pathIsInverse0 p = snd p"

text \<open>Storage before a constructor runs: every member holds some leftover value.\<close>

definition raw0 :: "(int, nat \<times> bool) Element" where
  "raw0 = \<lparr>fPath = (7, True), fRect = \<lparr>fLeft = 3, fTop = 1, fRight = 4, fBottom = 1\<rparr>,
           fSaveCount = 5, fOp = kXOR_Op, fType = kPath_Type, fDoAA = True,
           fFiniteBoundType = kNormal_BoundsType,
           fFiniteBound = \<lparr>fLeft = 9, fTop = 2, fRight = 6, fBottom = 5\<rparr>,
           fIsIntersectionOfRects = True, fGenID = 35\<rparr>"

text \<open>
  The spec's scenario: a stack seeded with the rectangle (0,0,100,100), then \<^verbatim>\<open>save()\<close>
  and an intersection with (50,50,200,200). The bound, flag and generation id of each
  element are the ones the scenario reports; two callbacks are registered.
\<close>

definition element0 :: "(int, nat \<times> bool) Element" where
  "element0 =
     (Element_ctor_save_rect pathNew0 raw0 0
        \<lparr>fLeft = 0, fTop = 0, fRight = 100, fBottom = 100\<rparr> kIntersect_Op False)
     \<lparr>fFiniteBoundType := kNormal_BoundsType,
      fFiniteBound := \<lparr>fLeft = 0, fTop = 0, fRight = 100, fBottom = 100\<rparr>,
      fIsIntersectionOfRects := True, fGenID := 3\<rparr>"

definition element1 :: "(int, nat \<times> bool) Element" where
  "element1 =
     (Element_ctor_save_rect pathNew0 raw0 1
        \<lparr>fLeft = 50, fTop = 50, fRight = 200, fBottom = 200\<rparr> kIntersect_Op False)
     \<lparr>fFiniteBoundType := kNormal_BoundsType,
      fFiniteBound := \<lparr>fLeft = 50, fTop = 50, fRight = 100, fBottom = 100\<rparr>,
      fIsIntersectionOfRects := True, fGenID := 4\<rparr>"

definition stack1 :: "(int, nat \<times> bool, nat, nat) SkClipStack" where
  "stack1 = \<lparr>fDeque = [element0, element1], stack_fSaveCount = 1,
             fCallbackData = [(1, 10), (2, 20)]\<rparr>"

definition stack_new :: "(int, nat \<times> bool, nat, nat) SkClipStack" where
  "stack_new = SkClipStack_ctor"

section \<open>Properties of Element\<close>

lemmas Element_defs = Element_ctor_def Element_ctor_rect_def Element_ctor_path_def
  Element_ctor_save_def Element_ctor_save_rect_def Element_ctor_save_path_def
  setEmpty_def initCommon_def initRect_def initPath_def setOp_def

lemmas example_defs = stack1_def element0_def element1_def Element_ctor_save_rect_def
  initRect_def initCommon_def

lemma Element_construct_inv:
  "fType (Element_construct pathNew pathReset raw c) = kEmpty_Type
     \<Longrightarrow> fGenID (Element_construct pathNew pathReset raw c) = kEmptyGenID"
  by (cases c)
     (simp_all add: Element_ctor_def Element_ctor_rect_def Element_ctor_path_def
        Element_ctor_save_def Element_ctor_save_rect_def Element_ctor_save_path_def
        setEmpty_def initCommon_def initRect_def initPath_def)

lemma Element_apply_inv:
  "(fType e = kEmpty_Type \<longrightarrow> fGenID e = kEmptyGenID)
     \<Longrightarrow> fType (Element_apply pathReset e call) = kEmpty_Type
     \<Longrightarrow> fGenID (Element_apply pathReset e call) = kEmptyGenID"
  by (cases call) (simp_all add: setOp_def setEmpty_def)

lemma foldl_Element_apply_inv:
  "(fType e = kEmpty_Type \<longrightarrow> fGenID e = kEmptyGenID)
     \<Longrightarrow> fType (foldl (Element_apply pathReset) e calls) = kEmpty_Type
     \<Longrightarrow> fGenID (foldl (Element_apply pathReset) e calls) = kEmptyGenID"
proof (induction calls arbitrary: e)
  case Nil
  then show ?case by simp
next
  case (Cons call calls)
  have "fType (Element_apply pathReset e call) = kEmpty_Type
          \<longrightarrow> fGenID (Element_apply pathReset e call) = kEmptyGenID"
    using Cons.prems(1) Element_apply_inv by blast
  with Cons.IH Cons.prems(2) show ?case by simp
qed

text \<open>
  Claim C8. The three reserved generation ids are 0 for invalid, 1 for empty (no pixels
  writeable) and 2 for wide open (all pixels writeable).
\<close>

theorem reserved_gen_ids:
  "kInvalidGenID = 0 \<and> kEmptyGenID = 1 \<and> kWideOpenGenID = 2"
  by (simp add: kInvalidGenID_def kEmptyGenID_def kWideOpenGenID_def)

text \<open>
  Claim C6. A default-constructed element is of kind Empty and carries the reserved empty
  id, and so does every Empty-kind element that the header's own code can produce: whatever
  constructor built it and whatever calls of \<^verbatim>\<open>setOp\<close> and \<^verbatim>\<open>setEmpty\<close> followed.
\<close>

theorem empty_element_has_empty_gen_id:
  "fType (Element_ctor pathNew pathReset raw) = kEmpty_Type
   \<and> fGenID (Element_ctor pathNew pathReset raw) = kEmptyGenID
   \<and> (fType (Element_run pathNew pathReset raw c calls) = kEmpty_Type
        \<longrightarrow> fGenID (Element_run pathNew pathReset raw c calls) = kEmptyGenID)"
proof -
  have "fType (Element_ctor pathNew pathReset raw) = kEmpty_Type"
    and "fGenID (Element_ctor pathNew pathReset raw) = kEmptyGenID"
    by (simp_all add: Element_ctor_def setEmpty_def)
  moreover have "fType (Element_run pathNew pathReset raw c calls) = kEmpty_Type
        \<longrightarrow> fGenID (Element_run pathNew pathReset raw c calls) = kEmptyGenID"
    unfolding Element_run_def
    using foldl_Element_apply_inv [of "Element_construct pathNew pathReset raw c" pathReset calls]
      Element_construct_inv [of pathNew pathReset raw c]
    by blast
  ultimately show ?thesis by blast
qed

theorem empty_element_has_empty_gen_id_witness:
  "fType (Element_run pathNew0 pathReset0 raw0 (New_save_rect 2 (fRect raw0) kUnion_Op True)
            [Call_setOp kXOR_Op, Call_setEmpty, Call_setOp kIntersect_Op]) = kEmpty_Type
   \<and> fGenID (Element_run pathNew0 pathReset0 raw0 (New_save_rect 2 (fRect raw0) kUnion_Op True)
            [Call_setOp kXOR_Op, Call_setEmpty, Call_setOp kIntersect_Op]) = 1"
  using empty_element_has_empty_gen_id [of pathNew0 pathReset0 raw0
      "New_save_rect 2 (fRect raw0) kUnion_Op True"
      "[Call_setOp kXOR_Op, Call_setEmpty, Call_setOp kIntersect_Op]"]
  by (simp add: Element_run_def Element_ctor_save_rect_def initRect_def initCommon_def
      setOp_def setEmpty_def kEmptyGenID_def)

text \<open>
  Claim C1, as the spec states it, says that two Empty-kind elements are equal whatever
  their operator, anti-alias flag and save level. A default-constructed element and a
  second one whose operator was then set to Intersect are both Empty and compare unequal.
\<close>

theorem Element_eq_empty_counterexample:
  "fType (Element_ctor pathNew0 pathReset0 raw0) = kEmpty_Type
   \<and> fType (setOp kIntersect_Op (Element_ctor pathNew0 pathReset0 raw0)) = kEmpty_Type
   \<and> \<not> Element_eq pathEq0 False (Element_ctor pathNew0 pathReset0 raw0)
          (setOp kIntersect_Op (Element_ctor pathNew0 pathReset0 raw0))"
  by (simp add: Element_eq_def Element_ctor_def setEmpty_def initCommon_def setOp_def)

text \<open>
  Claim C1, amended. Two distinct elements compare equal iff operator, kind, anti-alias
  flag and save level match and so does the payload of their kind: the paths for Path,
  the rectangles for Rect, nothing for Empty. An element compared with itself is equal.
  Two Empty-kind elements are therefore equal iff operator, anti-alias flag and save level
  match, whatever their rectangle, path, stored bound and generation id.
\<close>

theorem Element_eq_iff:
  "(Element_eq pathEq False a b \<longleftrightarrow>
      fOp a = fOp b \<and> fType a = fType b \<and> fDoAA a = fDoAA b \<and> fSaveCount a = fSaveCount b
      \<and> (case fType a of
            kPath_Type \<Rightarrow> pathEq (fPath a) (fPath b)
          | kRect_Type \<Rightarrow> fRect a = fRect b
          | kEmpty_Type \<Rightarrow> True))
   \<and> Element_eq pathEq True a a
   \<and> (fType a = kEmpty_Type \<and> fType b = kEmpty_Type \<longrightarrow>
        (Element_eq pathEq False a b \<longleftrightarrow>
           fOp a = fOp b \<and> fDoAA a = fDoAA b \<and> fSaveCount a = fSaveCount b))"
  by (auto simp add: Element_eq_def split: Element_Type.splits)

theorem Element_eq_iff_witness:
  "fType (Element_ctor pathNew0 pathReset0 raw0) = kEmpty_Type
   \<and> fType (setEmpty pathReset0 (Element_ctor_rect pathNew0 raw0 (fFiniteBound raw0) kReplace_Op False)) = kEmpty_Type
   \<and> Element_eq pathEq0 False (Element_ctor pathNew0 pathReset0 raw0)
       (setEmpty pathReset0 (Element_ctor_rect pathNew0 raw0 (fFiniteBound raw0) kReplace_Op False))"
  using Element_eq_iff [of pathEq0 "Element_ctor pathNew0 pathReset0 raw0"
      "setEmpty pathReset0 (Element_ctor_rect pathNew0 raw0 (fFiniteBound raw0) kReplace_Op False)"]
  by (simp add: Element_defs)

text \<open>
  Claim C7. \<^verbatim>\<open>Element::getBounds\<close> returns the stored rectangle for a Rect-kind
  element, the path's bounds for a Path-kind element and the zero rectangle for an
  Empty-kind element. Two elements that agree on kind, rectangle and path bounds get the
  same result, so the inverse-fill sense of the shape has no part in it.
\<close>

theorem Element_getBounds_cases:
  "(fType e = kRect_Type \<longrightarrow> Element_getBounds pathGetBounds e = fRect e)
   \<and> (fType e = kPath_Type \<longrightarrow> Element_getBounds pathGetBounds e = pathGetBounds (fPath e))
   \<and> (fType e = kEmpty_Type \<longrightarrow>
        Element_getBounds pathGetBounds e = \<lparr>fLeft = 0, fTop = 0, fRight = 0, fBottom = 0\<rparr>)
   \<and> (fType e' = fType e \<and> fRect e' = fRect e
        \<and> pathGetBounds (fPath e') = pathGetBounds (fPath e)
        \<longrightarrow> Element_getBounds pathGetBounds e' = Element_getBounds pathGetBounds e)"
  by (simp add: Element_getBounds_def split: Element_Type.splits)

theorem Element_getBounds_cases_witness:
  "fType (Element_ctor_path pathNew0 raw0 (4, True) kIntersect_Op False) = kPath_Type
   \<and> isInverseFilled pathIsInverse0 (Element_ctor_path pathNew0 raw0 (4, True) kIntersect_Op False)
   \<and> \<not> isInverseFilled pathIsInverse0 (Element_ctor_path pathNew0 raw0 (4, False) kIntersect_Op False)
   \<and> Element_getBounds pathGetBounds0 (Element_ctor_path pathNew0 raw0 (4, True) kIntersect_Op False)
       = \<lparr>fLeft = 0, fTop = 0, fRight = 4, fBottom = 4\<rparr>
   \<and> Element_getBounds pathGetBounds0 (Element_ctor_path pathNew0 raw0 (4, True) kIntersect_Op False)
       = Element_getBounds pathGetBounds0 (Element_ctor_path pathNew0 raw0 (4, False) kIntersect_Op False)"
  using Element_getBounds_cases [of "Element_ctor_path pathNew0 raw0 (4, False) kIntersect_Op False"
      pathGetBounds0 "Element_ctor_path pathNew0 raw0 (4, True) kIntersect_Op False"]
  by (simp add: Element_defs isInverseFilled_def pathIsInverse0_def pathGetBounds0_def)

text \<open>
  Claim C9. \<^verbatim>\<open>Element::contains\<close> is false for an Empty-kind element, is the rectangle
  containment \<^verbatim>\<open>fRect.contains(rect)\<close> for a Rect-kind element and the path's
  conservative test for a Path-kind element. Two elements that agree on kind, rectangle
  and the path's test get the same result, so the inverse-fill sense is never consulted.
\<close>

theorem Element_contains_cases:
  "(fType e = kEmpty_Type \<longrightarrow> \<not> Element_contains rectContains pathContains e rect)
   \<and> (fType e = kRect_Type \<longrightarrow>
        Element_contains rectContains pathContains e rect = rectContains (fRect e) rect)
   \<and> (fType e = kPath_Type \<longrightarrow>
        Element_contains rectContains pathContains e rect = pathContains (fPath e) rect)
   \<and> (fType e' = fType e \<and> fRect e' = fRect e
        \<and> pathContains (fPath e') rect = pathContains (fPath e) rect
        \<longrightarrow> Element_contains rectContains pathContains e' rect
            = Element_contains rectContains pathContains e rect)"
  by (simp add: Element_contains_def split: Element_Type.splits)

theorem Element_contains_cases_witness:
  "fType element1 = kRect_Type
   \<and> Element_contains SkRect_contains pathContains0 element1
        \<lparr>fLeft = 60, fTop = 60, fRight = 90, fBottom = 90\<rparr>
   \<and> fType (setEmpty pathReset0 element1) = kEmpty_Type
   \<and> \<not> Element_contains SkRect_contains pathContains0 (setEmpty pathReset0 element1)
        \<lparr>fLeft = 60, fTop = 60, fRight = 90, fBottom = 90\<rparr>"
  using Element_contains_cases [of element1 SkRect_contains pathContains0
      "\<lparr>fLeft = 60, fTop = 60, fRight = 90, fBottom = 90\<rparr>" element1]
    Element_contains_cases [of "setEmpty pathReset0 element1" SkRect_contains pathContains0
      "\<lparr>fLeft = 60, fTop = 60, fRight = 90, fBottom = 90\<rparr>" element1]
  by (simp add: example_defs setEmpty_def SkRect_contains_def SkRect_isEmpty_def)

section \<open>Properties of SkClipStack\<close>

text \<open>
  Claim C10. The integer-rectangle overload of \<^verbatim>\<open>clipDevRect\<close> yields the same stack
  as converting the integer rectangle to a float rectangle and calling the float overload
  with the anti-alias flag false, whatever the local rectangle held before.
\<close>

theorem clipDevRect_SkIRect_refines:
  "clipDevRect_SkIRect clipDevRect r ir op s = clipDevRect_converted clipDevRect ir op s"
  by (cases r)
     (simp add: clipDevRect_SkIRect_def clipDevRect_converted_def SkRect_set_def
        SkRect_of_SkIRect_def)

text \<open>
  Claim C4. A default-constructed stack is wide open and its topmost generation id is
  the wide-open id.
\<close>

theorem default_stack_is_wide_open:
  "isWideOpen SkClipStack_ctor \<and> getTopmostGenID SkClipStack_ctor = kWideOpenGenID"
  by (simp add: isWideOpen_def getTopmostGenID_def SkClipStack_ctor_def)

subsection \<open>Containment and intersection\<close>

lemma SkRect_intersection_within:
  "SkRect_within r' b \<Longrightarrow> SkRect_intersection r' b = r'"
  by (cases r') (auto simp add: SkRect_within_def SkRect_intersection_def max_def min_def)

lemma SkRect_within_trans:
  "SkRect_within r' r \<Longrightarrow> SkRect_within r b \<Longrightarrow> SkRect_within r' b"
  by (auto simp add: SkRect_within_def)

lemma SkRect_contains_within:
  "SkRect_contains b r \<Longrightarrow> SkRect_within r b"
  by (simp add: SkRect_contains_def SkRect_within_def)

lemma SkRect_contains_not_empty:
  "SkRect_contains b r \<Longrightarrow> \<not> SkRect_isEmpty b"
  by (simp add: SkRect_contains_def)

text \<open>
  Claim C2. If \<^verbatim>\<open>quickContains(R)\<close> is true, then for every rectangle \<open>R'\<close> lying
  within \<open>R\<close> edge by edge (so for every \<open>R'\<close> that \<open>R\<close> contains),
  \<^verbatim>\<open>intersectRectWithClip(R')\<close> returns true and leaves \<open>R'\<close> as it is.
\<close>

theorem quickContains_sound:
  assumes "quickContains s R" and "SkRect_within R' R"
  shows "intersectRectWithClip s R' = (True, R')"
proof -
  from assms(1) have ne: "fDeque s \<noteq> []"
    by (auto simp add: quickContains_def split: if_splits)
  let ?top = "last (fDeque s)"
  from assms(1) ne have normal: "fFiniteBoundType ?top = kNormal_BoundsType"
    and cont: "SkRect_contains (fFiniteBound ?top) R"
    by (simp_all add: quickContains_def)
  have gb: "getBounds s = (fFiniteBound ?top, kNormal_BoundsType, fIsIntersectionOfRects ?top)"
    using ne normal by (simp add: getBounds_def)
  have "SkRect_within R' (fFiniteBound ?top)"
    using assms(2) cont SkRect_contains_within SkRect_within_trans by blast
  then have "SkRect_intersection R' (fFiniteBound ?top) = R'"
    by (rule SkRect_intersection_within)
  moreover have "\<not> SkRect_isEmpty (fFiniteBound ?top)"
    using cont by (rule SkRect_contains_not_empty)
  ultimately show ?thesis
    by (simp add: intersectRectWithClip_def gb)
qed

theorem quickContains_sound_witness:
  "quickContains stack1 \<lparr>fLeft = 60, fTop = 60, fRight = 90, fBottom = 90\<rparr>
   \<and> SkRect_within \<lparr>fLeft = 70, fTop = 60, fRight = 80, fBottom = 85\<rparr>
        \<lparr>fLeft = 60, fTop = 60, fRight = 90, fBottom = (90::int)\<rparr>
   \<and> intersectRectWithClip stack1 \<lparr>fLeft = 70, fTop = 60, fRight = 80, fBottom = 85\<rparr>
       = (True, \<lparr>fLeft = 70, fTop = 60, fRight = 80, fBottom = 85\<rparr>)"
proof -
  have q: "quickContains stack1 \<lparr>fLeft = 60, fTop = 60, fRight = 90, fBottom = 90\<rparr>"
    by (simp add: quickContains_def SkRect_contains_def SkRect_isEmpty_def example_defs)
  have w: "SkRect_within \<lparr>fLeft = 70, fTop = 60, fRight = 80, fBottom = 85\<rparr>
        \<lparr>fLeft = 60, fTop = 60, fRight = 90, fBottom = (90::int)\<rparr>"
    by (simp add: SkRect_within_def)
  from q w quickContains_sound [OF q w] show ?thesis by simp
qed

subsection \<open>Conservative bounds\<close>

lemma SkRect_covers_intersection:
  "SkRect_covers (SkRect_intersection a b) x y \<longleftrightarrow> SkRect_covers a x y \<and> SkRect_covers b x y"
  by (auto simp add: SkRect_covers_def SkRect_intersection_def)

lemma SkRect_covers_offset:
  fixes r :: "'a::linordered_idom SkRect"
  shows "SkRect_covers (SkRect_offset dx dy r) x y \<longleftrightarrow> SkRect_covers r (x - dx) (y - dy)"
  by (auto simp add: SkRect_covers_def SkRect_offset_def algebra_simps)

text \<open>
  Claim C5. When the bound type that \<^verbatim>\<open>getBounds\<close> reports is inside-out,
  \<^verbatim>\<open>getConservativeBounds\<close> returns the full rectangle
  \<open>[0, maxWidth) \<times> [0, maxHeight)\<close>; otherwise it returns the Normal bound translated by
  \<open>(offsetX, offsetY)\<close> and intersected with that rectangle: its points are the points of
  the translated bound that lie in the full rectangle.
\<close>

theorem getConservativeBounds_cases:
  fixes s :: "('a::linordered_idom, 'p, 'f, 'd) SkClipStack"
  assumes "getBounds s = (bound, boundType, isRects)"
  shows "(boundType = kInsideOut_BoundsType \<longrightarrow>
            getConservativeBounds offsetX offsetY maxWidth maxHeight s
              = (\<lparr>fLeft = 0, fTop = 0, fRight = of_int maxWidth, fBottom = of_int maxHeight\<rparr>,
                 isRects))
         \<and> (boundType = kNormal_BoundsType \<longrightarrow>
              getConservativeBounds offsetX offsetY maxWidth maxHeight s
                = (SkRect_intersection
                     (SkRect_offset (of_int offsetX) (of_int offsetY) bound)
                     \<lparr>fLeft = 0, fTop = 0, fRight = of_int maxWidth, fBottom = of_int maxHeight\<rparr>,
                   isRects)
              \<and> (\<forall>x y. SkRect_covers
                          (fst (getConservativeBounds offsetX offsetY maxWidth maxHeight s)) x y
                        \<longleftrightarrow> SkRect_covers bound (x - of_int offsetX) (y - of_int offsetY)
                            \<and> 0 \<le> x \<and> x < of_int maxWidth \<and> 0 \<le> y \<and> y < of_int maxHeight))"
proof (cases boundType)
  case kNormal_BoundsType
  then have eq: "getConservativeBounds offsetX offsetY maxWidth maxHeight s
      = (SkRect_intersection
           (SkRect_offset (of_int offsetX) (of_int offsetY) bound)
           \<lparr>fLeft = 0, fTop = 0, fRight = of_int maxWidth, fBottom = of_int maxHeight\<rparr>,
         isRects)"
    using assms by (simp add: getConservativeBounds_def)
  have "SkRect_covers \<lparr>fLeft = 0, fTop = 0, fRight = of_int maxWidth, fBottom = of_int maxHeight\<rparr> x y
          \<longleftrightarrow> (0::'a) \<le> x \<and> x < of_int maxWidth \<and> 0 \<le> y \<and> y < of_int maxHeight" for x y :: 'a
    by (simp add: SkRect_covers_def)
  then show ?thesis
    using kNormal_BoundsType eq
    by (simp add: SkRect_covers_intersection SkRect_covers_offset)
next
  case kInsideOut_BoundsType
  then show ?thesis
    using assms by (simp add: getConservativeBounds_def)
qed

theorem getConservativeBounds_cases_witness:
  "getBounds stack1
     = (\<lparr>fLeft = 50, fTop = 50, fRight = 100, fBottom = 100\<rparr>, kNormal_BoundsType, True)
   \<and> getConservativeBounds 10 20 105 1000 stack1
       = (\<lparr>fLeft = 60, fTop = 70, fRight = 105, fBottom = 120\<rparr>, True)
   \<and> getBounds stack_new = (SkRect_setEmpty, kInsideOut_BoundsType, False)
   \<and> getConservativeBounds 0 0 1000 1000 stack_new
       = (\<lparr>fLeft = 0, fTop = 0, fRight = 1000, fBottom = 1000\<rparr>, False)"
proof -
  have g1: "getBounds stack1
     = (\<lparr>fLeft = 50, fTop = 50, fRight = 100, fBottom = 100\<rparr>, kNormal_BoundsType, True)"
    by (simp add: getBounds_def example_defs)
  have g2: "getBounds stack_new = (SkRect_setEmpty, kInsideOut_BoundsType, False)"
    by (simp add: getBounds_def stack_new_def SkClipStack_ctor_def)
  from g1 g2 getConservativeBounds_cases [OF g1, of 10 20 105 1000]
    getConservativeBounds_cases [OF g2, of 0 0 1000 1000]
  show ?thesis
    by (simp add: SkRect_intersection_def SkRect_offset_def)
qed

subsection \<open>Restore\<close>

lemma restore_loop_eq:
  "restore_loop callbacks n deque calls =
     (calls @ concat (map (purgeClip callbacks)
                 (takeWhile (\<lambda>e. n < fSaveCount e) (rev deque))),
      rev (dropWhile (\<lambda>e. n < fSaveCount e) (rev deque)))"
proof (induction callbacks n deque calls rule: restore_loop.induct)
  case (1 callbacks n deque calls)
  show ?case
  proof (cases "deque = []")
    case True
    then show ?thesis by (subst restore_loop.simps) simp
  next
    case ne: False
    then obtain xs x where d: "deque = xs @ [x]"
      by (metis append_butlast_last_id)
    show ?thesis
    proof (cases "fSaveCount (last deque) \<le> n")
      case True
      then have "restore_loop callbacks n deque calls = (calls, deque)"
        using ne by (subst restore_loop.simps) simp
      moreover have "\<not> n < fSaveCount x"
        using True d by simp
      ultimately show ?thesis
        using d by simp
    next
      case False
      have "restore_loop callbacks n deque calls
              = restore_loop callbacks n (butlast deque) (calls @ purgeClip callbacks (last deque))"
        using ne False by (subst restore_loop.simps) simp
      also have "\<dots> = (calls @ purgeClip callbacks (last deque)
                          @ concat (map (purgeClip callbacks)
                              (takeWhile (\<lambda>e. n < fSaveCount e) (rev (butlast deque)))),
                        rev (dropWhile (\<lambda>e. n < fSaveCount e) (rev (butlast deque))))"
        using 1 [OF ne False] by simp
      finally show ?thesis
        using False d by simp
    qed
  qed
qed

lemma dropWhile_sorted_filter:
  fixes f :: "'e \<Rightarrow> int"
  shows "sorted (rev (map f ys)) \<Longrightarrow>
     dropWhile (\<lambda>e. n < f e) ys = filter (\<lambda>e. f e \<le> n) ys
     \<and> takeWhile (\<lambda>e. n < f e) ys = filter (\<lambda>e. n < f e) ys"
proof (induction ys)
  case Nil
  then show ?case by simp
next
  case (Cons y ys)
  from Cons.prems have srt: "sorted (rev (map f ys))" and le: "\<forall>e\<in>set ys. f e \<le> f y"
    by (auto simp add: sorted_append)
  show ?case
  proof (cases "n < f y")
    case True
    with Cons.IH srt show ?thesis by simp
  next
    case False
    with le have all: "\<forall>e\<in>set ys. f e \<le> n" by fastforce
    then have "filter (\<lambda>e. f e \<le> n) ys = ys" and "filter (\<lambda>e. n < f e) ys = []"
      by (auto simp add: filter_empty_conv)
    with False show ?thesis by simp
  qed
qed

text \<open>
  Claim C3. On a stack with a positive save count, \<^verbatim>\<open>restore()\<close> decrements the save
  count and removes exactly the suffix \<open>gone\<close> of elements whose save level is greater
  than the new save count: the element below the suffix, if any, is not above the new
  count, and when the save levels are non-decreasing from bottom to top the suffix holds
  all elements above it. The purge callbacks are invoked with the generation id of each
  removed element, topmost first. The elements \<open>keep\<close> that remain are the ones that
  were there, unchanged in every field.
\<close>

theorem restore_pops_suffix:
  assumes "0 < stack_fSaveCount s"
  shows "\<exists>keep gone.
     fDeque s = keep @ gone
     \<and> (\<forall>e\<in>set gone. stack_fSaveCount s - 1 < fSaveCount e)
     \<and> (keep \<noteq> [] \<longrightarrow> fSaveCount (last keep) \<le> stack_fSaveCount s - 1)
     \<and> (sorted (map fSaveCount (fDeque s)) \<longrightarrow>
          keep = filter (\<lambda>e. fSaveCount e \<le> stack_fSaveCount s - 1) (fDeque s)
          \<and> gone = filter (\<lambda>e. stack_fSaveCount s - 1 < fSaveCount e) (fDeque s))
     \<and> restore s =
         Inr (concat (map (purgeClip (fCallbackData s)) (rev gone)),
              s\<lparr>fDeque := keep, stack_fSaveCount := stack_fSaveCount s - 1\<rparr>)"
proof -
  let ?n = "stack_fSaveCount s - 1"
  let ?P = "\<lambda>e. ?n < fSaveCount e"
  let ?keep = "rev (dropWhile ?P (rev (fDeque s)))"
  let ?gone = "rev (takeWhile ?P (rev (fDeque s)))"
  have split: "fDeque s = ?keep @ ?gone"
    by (metis rev_append rev_rev_ident takeWhile_dropWhile_id)
  have gone: "\<forall>e\<in>set ?gone. ?n < fSaveCount e"
    by (auto dest: set_takeWhileD)
  have keep: "?keep \<noteq> [] \<longrightarrow> fSaveCount (last ?keep) \<le> ?n"
  proof
    assume "?keep \<noteq> []"
    then have "dropWhile ?P (rev (fDeque s)) \<noteq> []"
      by simp
    then have "\<not> ?P (hd (dropWhile ?P (rev (fDeque s))))"
      by (rule hd_dropWhile)
    then show "fSaveCount (last ?keep) \<le> ?n"
      by (simp add: last_rev not_less)
  qed
  have srt: "sorted (map fSaveCount (fDeque s)) \<longrightarrow>
          ?keep = filter (\<lambda>e. fSaveCount e \<le> ?n) (fDeque s) \<and> ?gone = filter ?P (fDeque s)"
    using dropWhile_sorted_filter [of fSaveCount "rev (fDeque s)" ?n]
    by (simp add: rev_map rev_filter)
  have res: "restore s =
         Inr (concat (map (purgeClip (fCallbackData s)) (rev ?gone)),
              s\<lparr>fDeque := ?keep, stack_fSaveCount := ?n\<rparr>)"
    using assms by (simp add: restore_def restore_loop_eq)
  show ?thesis
    by (rule exI [of _ ?keep], rule exI [of _ ?gone]) (intro conjI split gone keep srt res)
qed

theorem restore_pops_suffix_witness:
  "0 < stack_fSaveCount stack1
   \<and> (\<exists>keep gone.
     fDeque stack1 = keep @ gone
     \<and> (\<forall>e\<in>set gone. stack_fSaveCount stack1 - 1 < fSaveCount e)
     \<and> (keep \<noteq> [] \<longrightarrow> fSaveCount (last keep) \<le> stack_fSaveCount stack1 - 1)
     \<and> (sorted (map fSaveCount (fDeque stack1)) \<longrightarrow>
          keep = filter (\<lambda>e. fSaveCount e \<le> stack_fSaveCount stack1 - 1) (fDeque stack1)
          \<and> gone = filter (\<lambda>e. stack_fSaveCount stack1 - 1 < fSaveCount e) (fDeque stack1))
     \<and> restore stack1 =
         Inr (concat (map (purgeClip (fCallbackData stack1)) (rev gone)),
              stack1\<lparr>fDeque := keep, stack_fSaveCount := stack_fSaveCount stack1 - 1\<rparr>))
   \<and> sorted (map fSaveCount (fDeque stack1))
   \<and> restore stack1 =
       Inr ([(1, 4, 10), (2, 4, 20)], stack1\<lparr>fDeque := [element0], stack_fSaveCount := 0\<rparr>)"
proof -
  have h: "0 < stack_fSaveCount stack1"
    by (simp add: stack1_def)
  have srt: "sorted (map fSaveCount (fDeque stack1))"
    by (simp add: example_defs)
  have "restore_loop [(1::nat, 10::nat), (2, 20)] 0 [element0, element1] []
          = ([(1, 4, 10), (2, 4, 20)], [element0])"
    by (simp add: restore_loop_eq purgeClip_def element0_def element1_def
        Element_ctor_save_rect_def initRect_def initCommon_def)
  then have r: "restore stack1 =
       Inr ([(1, 4, 10), (2, 4, 20)], stack1\<lparr>fDeque := [element0], stack_fSaveCount := 0\<rparr>)"
    by (simp add: restore_def stack1_def)
  show ?thesis
    by (intro conjI h srt r restore_pops_suffix [OF h])
qed

end
